theory Spec2Isabelle
  imports Complex_Main "HOL-Library.Char_ord" "HOL-Library.List_Lexorder" "HOL-Library.Multiset"
begin

section \<open>Data model of main.py\<close>

text \<open>
  Python floats (latitudes, longitudes, distances) are modelled as real numbers, Python
  ints (epoch seconds, durations) as \<open>int\<close>. Exceptions are values of \<open>error\<close>;
  a function that can raise returns \<open>error + 'a\<close> with \<open>Inl\<close> for the exception.
\<close>

datatype error =
    IndexError
  | TypeError
  | DateRangeError    \<comment> \<open>ValueError / OverflowError of \<open>datetime.fromtimestamp\<close>\<close>
  | KeyError
  | SystemExit string
  | Uncaught string   \<comment> \<open>another exception of \<open>urlopen\<close> or \<open>json.load\<close>, by class name\<close>

text \<open>A station identifier comes from JSON (a string in GBFS feeds); flex parking uses the int 0.\<close>

datatype ident = IntId int | StrId string

text \<open>
  \<open>distance\<close>, \<open>__lt__\<close> and \<open>has_moved\<close> only need "an object with a lat and lon
  attribute": stations and bikes both extend \<open>geo\<close>.
\<close>

record geo =
  lat :: real
  lon :: real

text \<open>A decoded entry of \<open>data.stations\<close> and a decoded entry of \<open>data.bikes\<close>.\<close>

record station_json = geo +
  station_id :: ident
  name :: string

record bike_json = geo +
  bike_id :: string
  is_disabled :: int

record station = geo +
  sid :: ident
  sname :: string

record bike = geo +
  last_seen :: int

definition Station :: "station_json \<Rightarrow> station" where
  "Station station_json =
     \<lparr>lat = lat station_json, lon = lon station_json,
      sid = station_id station_json, sname = name station_json\<rparr>"

definition Bike :: "bike_json \<Rightarrow> int \<Rightarrow> bike" where
  "Bike bike_json last_seen_at =
     \<lparr>lat = lat bike_json, lon = lon bike_json, last_seen = last_seen_at\<rparr>"

section \<open>Geometry\<close>

definition radians :: "real \<Rightarrow> real" where
  "radians x = x * pi / 180"

definition distance :: "'a geo_scheme \<Rightarrow> 'b geo_scheme \<Rightarrow> real" where
  "distance obj1 obj2 =
     (let lat1 = radians (lat obj1);
          lat2 = radians (lat obj2);
          del_lat = lat2 - lat1;
          del_lon = radians (lon obj2 - lon obj1);
          mean_lat = (lat1 + lat2) / 2;
          r = 6371000
      in r * sqrt (del_lat ^ 2 + (cos mean_lat * del_lon) ^ 2))"

definition away_from :: "bike \<Rightarrow> 'a geo_scheme \<Rightarrow> bool" where
  "away_from self other = (distance self other > 50)"

definition has_moved :: "bike \<Rightarrow> 'a geo_scheme \<Rightarrow> bool" where
  "has_moved self other = (lat self \<noteq> lat other \<or> lon self \<noteq> lon other)"

section \<open>Binary search (the bisect module) and list indexing\<close>

text \<open>
  \<open>bisect.bisect_left(a, x)\<close> tests \<open>a[mid] < x\<close>, which is \<open>Station.__lt__\<close>:
  \<open>a[mid].lon < x.lon\<close>. \<open>bisect.bisect_right(a, x)\<close> tests \<open>x < a[mid]\<close>, which is
  \<open>Bike.__lt__\<close>: \<open>x.lon < a[mid].lon\<close>. Both loops start with \<open>lo = 0\<close> and
  \<open>hi = len(a)\<close>.
\<close>

function bisect_left_loop :: "station list \<Rightarrow> bike \<Rightarrow> nat \<Rightarrow> nat \<Rightarrow> nat" where
  "bisect_left_loop a x lo hi =
     (if lo < hi then
        (let mid = (lo + hi) div 2
         in if lon (a ! mid) < lon x then bisect_left_loop a x (mid + 1) hi
            else bisect_left_loop a x lo mid)
      else lo)"
  by pat_completeness auto
termination
  by (relation "measure (\<lambda>(a, x, lo, hi). hi - lo)") auto

function bisect_right_loop :: "station list \<Rightarrow> bike \<Rightarrow> nat \<Rightarrow> nat \<Rightarrow> nat" where
  "bisect_right_loop a x lo hi =
     (if lo < hi then
        (let mid = (lo + hi) div 2
         in if lon x < lon (a ! mid) then bisect_right_loop a x lo mid
            else bisect_right_loop a x (mid + 1) hi)
      else lo)"
  by pat_completeness auto
termination
  by (relation "measure (\<lambda>(a, x, lo, hi). hi - lo)") auto

definition bisect_left :: "station list \<Rightarrow> bike \<Rightarrow> nat" where
  "bisect_left a x = bisect_left_loop a x 0 (length a)"

definition bisect_right :: "station list \<Rightarrow> bike \<Rightarrow> nat" where
  "bisect_right a x = bisect_right_loop a x 0 (length a)"

text \<open>\<open>station_list[i]\<close> for a non-negative index: IndexError at or beyond the length.\<close>

definition subscript :: "'a list \<Rightarrow> nat \<Rightarrow> error + 'a" where
  "subscript xs i = (if i < length xs then Inr (xs ! i) else Inl IndexError)"

section \<open>Bike.find_station\<close>

definition flex_parking :: "bike \<Rightarrow> station" where
  "flex_parking self =
     Station \<lparr>lat = lat self, lon = lon self, station_id = IntId 0, name = ''Flex parking''\<rparr>"

text \<open>
  The indices returned by bisect are ints, never \<open>None\<close>, so the guards
  \<open>if i1 is not None\<close> and \<open>if i2 is not None\<close> always take the first branch:
  \<open>station_list[i1]\<close> and \<open>station_list[i2]\<close> are always evaluated, in this order.
\<close>

definition find_station :: "bike \<Rightarrow> station list \<Rightarrow> error + station" where
  "find_station self station_list =
     (let i1 = bisect_left station_list self;
          i2 = bisect_right station_list self
      in case subscript station_list i1 of
           Inl e \<Rightarrow> Inl e
         | Inr s1 \<Rightarrow>
             (let d1 = distance s1 self
              in case subscript station_list i2 of
                   Inl e \<Rightarrow> Inl e
                 | Inr s2 \<Rightarrow>
                     (let d2 = distance s2 self
                      in if d1 < d2 \<and> d1 < 10 then Inr s1
                         else if d2 < 10 then Inr s2
                         else Inr (flex_parking self))))"

section \<open>Timestamps: datetime.fromtimestamp(t, tz=timezone.utc).isoformat(sep=" ")\<close>

text \<open>
  The conversion of an integer epoch to a UTC calendar date follows the datetime module's
  own algorithm for the proleptic Gregorian calendar (\<open>_ord2ymd\<close>, with the tables
  \<open>_DAYS_IN_MONTH\<close> and \<open>_DAYS_BEFORE_MONTH\<close>). Ordinal 1 is 0001-01-01 and
  1970-01-01 has ordinal 719163.
\<close>

definition DAYS_IN_MONTH :: "int \<Rightarrow> int" where
  "DAYS_IN_MONTH month = [0, 31, 28, 31, 30, 31, 30, 31, 31, 30, 31, 30, 31] ! nat month"

definition DAYS_BEFORE_MONTH :: "int \<Rightarrow> int" where
  "DAYS_BEFORE_MONTH month =
     [0, 0, 31, 59, 90, 120, 151, 181, 212, 243, 273, 304, 334] ! nat month"

definition ord2ymd :: "int \<Rightarrow> int \<times> int \<times> int" where
  "ord2ymd ordinal =
     (let n = ordinal - 1;
          n400 = n div 146097; n = n mod 146097;
          year = n400 * 400 + 1;
          n100 = n div 36524; n = n mod 36524;
          n4 = n div 1461; n = n mod 1461;
          n1 = n div 365; n = n mod 365;
          year = year + n100 * 100 + n4 * 4 + n1
      in if n1 = 4 \<or> n100 = 4 then (year - 1, 12, 31)
         else
           (let leapyear = (n1 = 3 \<and> (n4 \<noteq> 24 \<or> n100 = 3));
                month = (n + 50) div 32;
                preceding = DAYS_BEFORE_MONTH month + (if month > 2 \<and> leapyear then 1 else 0)
            in if preceding > n then
                 (let month = month - 1;
                      preceding = preceding
                        - (DAYS_IN_MONTH month + (if month = 2 \<and> leapyear then 1 else 0))
                  in (year, month, n - preceding + 1))
               else (year, month, n - preceding + 1)))"

text \<open>\<open>"%0wd" % n\<close> for a non-negative \<open>n\<close>: the decimal digits, zero-filled to width \<open>w\<close>.\<close>

definition digit_char :: "nat \<Rightarrow> char" where
  "digit_char d = ''0123456789'' ! d"

fun decimal :: "nat \<Rightarrow> string" where
  "decimal n = (if n < 10 then [digit_char n] else decimal (n div 10) @ [digit_char (n mod 10)])"

definition zfill :: "nat \<Rightarrow> int \<Rightarrow> string" where
  "zfill w n = replicate (w - length (decimal (nat n))) (CHR ''0'') @ decimal (nat n)"

text \<open>
  The representable instants are the years 1 to 9999; outside them
  \<open>datetime.fromtimestamp\<close> raises. An integer timestamp has no microseconds, so
  \<open>isoformat\<close> prints none.
\<close>

definition MIN_TIMESTAMP :: int where
  "MIN_TIMESTAMP = - 62135596800"

definition MAX_TIMESTAMP :: int where
  "MAX_TIMESTAMP = 253402300799"

record datetime =
  year :: int
  month :: int
  day :: int
  hour :: int
  minute :: int
  second :: int

definition fromtimestamp :: "int \<Rightarrow> error + datetime" where
  "fromtimestamp t =
     (if t < MIN_TIMESTAMP \<or> MAX_TIMESTAMP < t then Inl DateRangeError
      else
        (let days = t div 86400; secs = t mod 86400;
             (y, m, d) = ord2ymd (days + 719163)
         in Inr \<lparr>year = y, month = m, day = d,
                 hour = secs div 3600, minute = (secs mod 3600) div 60, second = secs mod 60\<rparr>))"

definition isoformat :: "datetime \<Rightarrow> string" where
  "isoformat dt =
     zfill 4 (year dt) @ ''-'' @ zfill 2 (month dt) @ ''-'' @ zfill 2 (day dt) @ '' ''
     @ zfill 2 (hour dt) @ '':'' @ zfill 2 (minute dt) @ '':'' @ zfill 2 (second dt)
     @ ''+00:00''"

definition isoformat_utc :: "int \<Rightarrow> error + string" where
  "isoformat_utc t =
     (case fromtimestamp t of
        Inl e \<Rightarrow> Inl e
      | Inr dt \<Rightarrow> Inr (isoformat dt))"

section \<open>new_trip\<close>

record trip =
  started_at :: string
  ended_at :: string
  duration :: int
  start_station_id :: ident
  start_station_name :: string
  start_station_latitude :: real
  start_station_longitude :: real
  end_station_id :: ident
  end_station_name :: string
  end_station_latitude :: real
  end_station_longitude :: real

definition new_trip :: "station \<Rightarrow> station \<Rightarrow> int \<Rightarrow> int \<Rightarrow> error + trip" where
  "new_trip start_station end_station started ended =
     (case isoformat_utc started of
        Inl e \<Rightarrow> Inl e
      | Inr started_str \<Rightarrow>
          (case isoformat_utc ended of
             Inl e \<Rightarrow> Inl e
           | Inr ended_str \<Rightarrow>
               Inr \<lparr>started_at = started_str,
                    ended_at = ended_str,
                    duration = ended - started,
                    start_station_id = sid start_station,
                    start_station_name = sname start_station,
                    start_station_latitude = lat start_station,
                    start_station_longitude = lon start_station,
                    end_station_id = sid end_station,
                    end_station_name = sname end_station,
                    end_station_latitude = lat end_station,
                    end_station_longitude = lon end_station\<rparr>))"

section \<open>BikeRegistry\<close>

text \<open>
  \<open>urlopen\<close> and \<open>json.load\<close> are input: their outcome is an argument. \<open>Loaded\<close>
  carries a decoded document with the keys the code reads; \<open>MissingKey\<close> is a decoded
  document without them (the subscript raises KeyError, which no \<open>except\<close> clause of
  the source catches).
\<close>

datatype 'a fetched = FetchIOError | FetchJSONDecodeError | MissingKey | Loaded 'a

record payload =
  p_last_updated :: int
  p_ttl :: int
  p_bikes :: "bike_json list"

record registry =
  city_name :: string
  free_bike_status_url :: string
  bikes :: "string \<rightharpoonup> bike"
  ttl :: "int option"
  last_updated :: "int option"
  trips :: "trip list"
  stations :: "station list"

text \<open>
  The body of the loop over \<open>bikes_json\<close> in \<open>BikeRegistry.update\<close>. It reads
  \<open>self.last_updated\<close>, which \<open>update\<close> has set to an int before the loop; with
  \<open>None\<close> there the subtraction would raise TypeError.
\<close>

definition update_bike :: "registry \<Rightarrow> bike_json \<Rightarrow> error + registry" where
  "update_bike self bj =
     (case last_updated self of
        None \<Rightarrow> Inl TypeError
      | Some lu \<Rightarrow>
          (let cur_bike = Bike bj lu
           in case bikes self (bike_id bj) of
                Some old_bike \<Rightarrow>
                  if away_from old_bike cur_bike \<and> lu - last_seen old_bike > 100 then
                    (case find_station old_bike (stations self) of
                       Inl e \<Rightarrow> Inl e
                     | Inr start_station \<Rightarrow>
                         (case find_station cur_bike (stations self) of
                            Inl e \<Rightarrow> Inl e
                          | Inr end_station \<Rightarrow>
                              (case new_trip start_station end_station (last_seen old_bike) lu of
                                 Inl e \<Rightarrow> Inl e
                               | Inr t \<Rightarrow>
                                   Inr (self\<lparr>trips := trips self @ [t],
                                             bikes := (bikes self)(bike_id bj \<mapsto> cur_bike)\<rparr>))))
                  else
                    (let old_bike' = old_bike\<lparr>last_seen := lu\<rparr>
                     in if has_moved old_bike' cur_bike
                        then Inr (self\<lparr>bikes := (bikes self)(bike_id bj \<mapsto> cur_bike)\<rparr>)
                        else Inr (self\<lparr>bikes := (bikes self)(bike_id bj \<mapsto> old_bike')\<rparr>))
              | None \<Rightarrow>
                  if is_disabled bj = 0
                  then Inr (self\<lparr>bikes := (bikes self)(bike_id bj \<mapsto> cur_bike)\<rparr>)
                  else Inr self))"

fun update_bikes :: "registry \<Rightarrow> bike_json list \<Rightarrow> error + registry" where
  "update_bikes self [] = Inr self"
| "update_bikes self (bj # rest) =
     (case update_bike self bj of
        Inl e \<Rightarrow> Inl e
      | Inr self' \<Rightarrow> update_bikes self' rest)"

definition update :: "registry \<Rightarrow> payload fetched \<Rightarrow> error + registry" where
  "update self fetched =
     (case fetched of
        FetchIOError \<Rightarrow> Inr self
      | FetchJSONDecodeError \<Rightarrow> Inr self
      | MissingKey \<Rightarrow> Inl KeyError
      | Loaded free_bike_status_json \<Rightarrow>
          if Some (p_last_updated free_bike_status_json) = last_updated self then Inr self
          else update_bikes
                 (self\<lparr>last_updated := Some (p_last_updated free_bike_status_json),
                       ttl := Some (p_ttl free_bike_status_json)\<rparr>)
                 (p_bikes free_bike_status_json))"


section \<open>Example data\<close>

text \<open>Three stations on the equator, at longitudes 0, 0.002 and 1 degrees.\<close>

definition station_A :: station where
  "station_A = \<lparr>lat = 0, lon = 0, sid = StrId ''A'', sname = ''Station A''\<rparr>"

definition station_B :: station where
  "station_B = \<lparr>lat = 0, lon = 2 / 1000, sid = StrId ''B'', sname = ''Station B''\<rparr>"

definition station_C :: station where
  "station_C = \<lparr>lat = 0, lon = 1, sid = StrId ''C'', sname = ''Station C''\<rparr>"

text \<open>A registry that tracks bike \<open>b1\<close>, last seen at station A at time 1000.\<close>

definition tracking_b1 :: "int \<Rightarrow> registry" where
  "tracking_b1 now =
     \<lparr>city_name = ''Berlin'', free_bike_status_url = ''u'',
      bikes = [''b1'' \<mapsto> \<lparr>lat = 0, lon = 0, last_seen = 1000\<rparr>],
      ttl = Some 60, last_updated = Some now, trips = [],
      stations = [station_A, station_B, station_C]\<rparr>"

text \<open>Two later observations of \<open>b1\<close>: about 278 m and about 33 m east of station A.\<close>

definition b1_far :: bike_json where
  "b1_far = \<lparr>lat = 0, lon = 25 / 10000, bike_id = ''b1'', is_disabled = 0\<rparr>"

definition b1_near :: bike_json where
  "b1_near = \<lparr>lat = 0, lon = 3 / 10000, bike_id = ''b1'', is_disabled = 0\<rparr>"

text \<open>A registry with no bikes yet, and observations of a bike \<open>b2\<close> and a bike \<open>b3\<close>.\<close>

definition fresh_registry :: registry where
  "fresh_registry =
     \<lparr>city_name = ''Berlin'', free_bike_status_url = ''u'', bikes = Map.empty,
      ttl = None, last_updated = None, trips = [],
      stations = [station_A, station_B, station_C]\<rparr>"

definition b2_disabled :: bike_json where
  "b2_disabled = \<lparr>lat = 0, lon = 0, bike_id = ''b2'', is_disabled = 1\<rparr>"

definition b3_enabled :: bike_json where
  "b3_enabled = \<lparr>lat = 0, lon = 0, bike_id = ''b3'', is_disabled = 0\<rparr>"

section \<open>Calendar arithmetic and string order, for the terminal sort\<close>











text \<open>
  \<open>pad w k\<close> is the last \<open>w\<close> decimal digits of \<open>k\<close>; \<open>dt_ok\<close> says that every field
  fits the width \<open>isoformat\<close> gives it.
\<close>

fun pad :: "nat \<Rightarrow> nat \<Rightarrow> string" where
  "pad 0 k = []"
| "pad (Suc w) k = pad w (k div 10) @ [digit_char (k mod 10)]"


text \<open>
  The start epoch of a trip record is the timestamp whose formatting, as \<open>new_trip\<close>
  does it, is the record's \<open>started_at\<close>.
\<close>

definition started_at_epoch :: "trip \<Rightarrow> int \<Rightarrow> bool" where
  "started_at_epoch t x = (isoformat_utc x = Inr (started_at t))"




section \<open>BikeRegistry.__init__\<close>

text \<open>
  What \<open>json.load\<close> returns: \<open>None\<close>, a bool, an int, a float (a real, as for the
  coordinates above; the non-finite floats are not represented), a str, a list, or a
  dict, given by its items in order, each key once.
\<close>

datatype json =
    JNull
  | JBool bool
  | JInt int
  | JFloat real
  | JStr string
  | JArr "json list"
  | JObj "(string \<times> json) list"

text \<open>
  The outcome of \<open>urlopen(station_info_url)\<close> followed by \<open>json.load(data)\<close>: an
  IOError (URLError, HTTPError, a failed read), a JSONDecodeError, any other exception
  (ValueError for a URL of unknown type, UnicodeDecodeError for bytes that are not
  UTF-8, ...), or the decoded document, which can be any JSON value.
\<close>

datatype station_info =
    RaisesIOError
  | RaisesJSONDecodeError
  | RaisesOther string
  | Returns json

text \<open>
  \<open>x[key]\<close> with a str key: a dict raises KeyError when it has no such key; a list, a
  str, a number, a bool and \<open>None\<close> raise TypeError.
\<close>

fun getitem :: "json \<Rightarrow> string \<Rightarrow> error + json" where
  "getitem (JObj items) key = (case map_of items key of None \<Rightarrow> Inl KeyError | Some v \<Rightarrow> Inr v)"
| "getitem x key = Inl TypeError"

text \<open>
  \<open>for station_json in x\<close>: the elements of a list, the keys of a dict, the
  characters of a str; a number, a bool and \<open>None\<close> raise TypeError.
\<close>

fun iterate :: "json \<Rightarrow> error + json list" where
  "iterate (JArr xs) = Inr xs"
| "iterate (JObj items) = Inr (map (\<lambda>item. JStr (fst item)) items)"
| "iterate (JStr s) = Inr (map (\<lambda>c. JStr [c]) s)"
| "iterate x = Inl TypeError"

text \<open>
  A \<open>Station\<close> object as \<open>Station.__init__\<close> builds it from an entry of the station
  list: the four attributes hold whatever the entry has under the four keys.
\<close>

record station_obj =
  obj_id :: json
  obj_name :: json
  obj_lat :: json
  obj_lon :: json

definition Station_init :: "json \<Rightarrow> error + station_obj" where
  "Station_init station_json =
     (case getitem station_json ''station_id'' of
        Inl e \<Rightarrow> Inl e
      | Inr i \<Rightarrow>
     (case getitem station_json ''name'' of
        Inl e \<Rightarrow> Inl e
      | Inr n \<Rightarrow>
     (case getitem station_json ''lat'' of
        Inl e \<Rightarrow> Inl e
      | Inr la \<Rightarrow>
     (case getitem station_json ''lon'' of
        Inl e \<Rightarrow> Inl e
      | Inr lo \<Rightarrow> Inr \<lparr>obj_id = i, obj_name = n, obj_lat = la, obj_lon = lo\<rparr>))))"

text \<open>The loop \<open>for station_json in stations_json: self.stations.append(Station(station_json))\<close>.\<close>

fun append_stations :: "station_obj list \<Rightarrow> json list \<Rightarrow> error + station_obj list" where
  "append_stations objs [] = Inr objs"
| "append_stations objs (station_json # rest) =
     (case Station_init station_json of
        Inl e \<Rightarrow> Inl e
      | Inr s \<Rightarrow> append_stations (objs @ [s]) rest)"

text \<open>
  The \<open>try\<close> statement. Its \<open>except\<close> clause catches IOError and JSONDecodeError and
  exits; every other exception, the KeyError and TypeError of the two subscripts
  included, leaves the constructor.
\<close>

definition load_stations_json :: "station_info \<Rightarrow> error + json" where
  "load_stations_json info =
     (case info of
        RaisesIOError \<Rightarrow> Inl (SystemExit ''Could not load station info json, exiting...'')
      | RaisesJSONDecodeError \<Rightarrow> Inl (SystemExit ''Could not load station info json, exiting...'')
      | RaisesOther exception \<Rightarrow> Inl (Uncaught exception)
      | Returns document \<Rightarrow>
          (case getitem document ''data'' of
             Inl e \<Rightarrow> Inl e
           | Inr data \<Rightarrow> getitem data ''stations''))"

text \<open>The constructor up to the call of \<open>sort\<close>: the list \<open>self.stations\<close>, or the exception.\<close>

definition unsorted_stations :: "station_info \<Rightarrow> error + station_obj list" where
  "unsorted_stations info =
     (case load_stations_json info of
        Inl e \<Rightarrow> Inl e
      | Inr stations_json \<Rightarrow>
          (case iterate stations_json of
             Inl e \<Rightarrow> Inl e
           | Inr entries \<Rightarrow> append_stations [] entries))"

text \<open>
  \<open>self.stations.sort()\<close> compares with \<open>Station.__lt__\<close>, that is \<open>self.lon < other.lon\<close>
  on whatever the entries had under \<open>lon\<close>. Python orders numbers (bools among them) by
  value and strs by code points; \<open><\<close> between values of two of the kinds number, str,
  list, and any \<open><\<close> with \<open>None\<close> or a dict, raises TypeError; \<open><\<close> between two lists
  compares elements and can raise, too.
\<close>

fun is_number :: "json \<Rightarrow> bool" where
  "is_number (JInt i) = True"
| "is_number (JFloat x) = True"
| "is_number (JBool b) = True"
| "is_number x = False"

fun number :: "json \<Rightarrow> real" where
  "number (JInt i) = of_int i"
| "number (JFloat x) = x"
| "number (JBool b) = (if b then 1 else 0)"
| "number x = 0"

fun is_str :: "json \<Rightarrow> bool" where
  "is_str (JStr s) = True"
| "is_str x = False"

fun str :: "json \<Rightarrow> string" where
  "str (JStr s) = s"
| "str x = []"

fun is_list :: "json \<Rightarrow> bool" where
  "is_list (JArr xs) = True"
| "is_list x = False"

text \<open>
  \<open>list_sort objs outcome\<close>: \<open>outcome\<close> is a possible outcome of \<open>objs.sort()\<close>. A
  list of fewer than two stations is returned without a comparison. When all the longitudes are numbers, or all are strs, the outcome is the
  stable sort. When they are of several kinds, or some is \<open>None\<close> or a dict, some
  comparison is between those and the sort raises TypeError. When all the longitudes
  are lists, the comparisons that the sort makes decide: this model only says that the
  sort raises TypeError or returns a rearrangement.
\<close>

definition list_sort :: "station_obj list \<Rightarrow> error + station_obj list \<Rightarrow> bool" where
  "list_sort objs outcome =
     (if length objs \<le> 1 then outcome = Inr objs
      else if list_all (\<lambda>s. is_number (obj_lon s)) objs
        then outcome = Inr (sort_key (\<lambda>s. number (obj_lon s)) objs)
      else if list_all (\<lambda>s. is_str (obj_lon s)) objs
        then outcome = Inr (sort_key (\<lambda>s. str (obj_lon s)) objs)
      else if list_all (\<lambda>s. is_list (obj_lon s)) objs
        then (case outcome of
                Inl e \<Rightarrow> e = TypeError
              | Inr sorted_objs \<Rightarrow> mset sorted_objs = mset objs)
      else outcome = Inl TypeError)"

text \<open>
  The object that the constructor returns. Its \<open>stations\<close> are \<open>Station\<close> objects as
  built above; \<open>registry\<close> is such an object whose stations have an identifier, a
  name and two floats.
\<close>

record bike_registry =
  self_city_name :: string
  self_free_bike_status_url :: string
  self_bikes :: "string \<rightharpoonup> bike"
  self_ttl :: "int option"
  self_last_updated :: "int option"
  self_trips :: "trip list"
  self_stations :: "station_obj list"

text \<open>
  \<open>init city_name station_info free_bike_status_url outcome\<close>: \<open>outcome\<close> is a possible
  outcome of \<open>BikeRegistry(city_name, station_info_url, free_bike_status_url)\<close> when
  fetching and decoding \<open>station_info_url\<close> has the outcome \<open>station_info\<close>: \<open>Inl\<close>
  the exception that leaves the constructor, \<open>Inr\<close> the object.
\<close>

definition init :: "string \<Rightarrow> station_info \<Rightarrow> string \<Rightarrow> error + bike_registry \<Rightarrow> bool" where
  "init city info status_url outcome =
     (case unsorted_stations info of
        Inl e \<Rightarrow> outcome = Inl e
      | Inr objs \<Rightarrow>
          (case outcome of
             Inl e \<Rightarrow> list_sort objs (Inl e)
           | Inr self \<Rightarrow>
               list_sort objs (Inr (self_stations self))
               \<and> self = \<lparr>self_city_name = city,
                          self_free_bike_status_url = status_url,
                          self_bikes = Map.empty,
                          self_ttl = None,
                          self_last_updated = None,
                          self_trips = [],
                          self_stations = self_stations self\<rparr>))"

text \<open>
  The words of the claim about construction. The station list of a source is the
  member \<open>stations\<close> of the member \<open>data\<close> of its document; it is missing when the
  source gives no document or the document has no such member. A station list is
  well formed when it is an array of objects that each have the members
  \<open>station_id\<close>, \<open>name\<close>, \<open>lat\<close> and \<open>lon\<close>, and malformed otherwise. It has no entry
  when it is an empty array, or an empty object or an empty string in the place of the
  array.
\<close>

definition member_of :: "json \<Rightarrow> string \<Rightarrow> json option" where
  "member_of x key = (case x of JObj items \<Rightarrow> map_of items key | _ \<Rightarrow> None)"

definition station_list_of :: "station_info \<Rightarrow> json option" where
  "station_list_of info =
     (case info of
        Returns document \<Rightarrow>
          (case member_of document ''data'' of
             None \<Rightarrow> None
           | Some data \<Rightarrow> member_of data ''stations'')
      | _ \<Rightarrow> None)"

definition station_entry :: "json \<Rightarrow> bool" where
  "station_entry x =
     (case x of
        JObj items \<Rightarrow> list_all (\<lambda>key. key \<in> fst ` set items) [''station_id'', ''name'', ''lat'', ''lon'']
      | _ \<Rightarrow> False)"

definition malformed :: "json \<Rightarrow> bool" where
  "malformed x = (case x of JArr entries \<Rightarrow> \<not> list_all station_entry entries | _ \<Rightarrow> True)"

definition no_entry :: "json \<Rightarrow> bool" where
  "no_entry x = (x = JArr [] \<or> x = JObj [] \<or> x = JStr [])"

text \<open>The registry without stations that the constructor returns for an empty list.\<close>

definition empty_registry :: "string \<Rightarrow> string \<Rightarrow> bike_registry" where
  "empty_registry city status_url =
     \<lparr>self_city_name = city, self_free_bike_status_url = status_url, self_bikes = Map.empty,
      self_ttl = None, self_last_updated = None, self_trips = [], self_stations = []\<rparr>"

text \<open>
  The document of a station list with stations that have an identifier, a name and
  two floats, and the \<open>Station\<close> object of such a station.
\<close>

definition json_of_ident :: "ident \<Rightarrow> json" where
  "json_of_ident i = (case i of IntId n \<Rightarrow> JInt n | StrId s \<Rightarrow> JStr s)"

definition json_of_station :: "station_json \<Rightarrow> json" where
  "json_of_station s =
     JObj [(''station_id'', json_of_ident (station_id s)), (''name'', JStr (name s)),
           (''lat'', JFloat (lat s)), (''lon'', JFloat (lon s))]"

definition station_information :: "station_json list \<Rightarrow> json" where
  "station_information entries =
     JObj [(''data'', JObj [(''stations'', JArr (map json_of_station entries))])]"

definition obj_of_station :: "station \<Rightarrow> station_obj" where
  "obj_of_station s =
     \<lparr>obj_id = json_of_ident (sid s), obj_name = JStr (sname s),
      obj_lat = JFloat (lat s), obj_lon = JFloat (lon s)\<rparr>"

text \<open>Example documents: \<open>{"data": []}\<close>, a station list with an entry without \<open>lon\<close>,
  an empty station list, and a station list whose one entry has strs as coordinates.\<close>

definition doc_data_is_list :: json where
  "doc_data_is_list = JObj [(''data'', JArr [])]"

definition doc_entry_without_lon :: json where
  "doc_entry_without_lon =
     JObj [(''data'', JObj [(''stations'',
        JArr [JObj [(''station_id'', JStr ''A''), (''name'', JStr ''Station A''),
                    (''lat'', JFloat 0)]])])]"

definition doc_no_stations :: json where
  "doc_no_stations = JObj [(''data'', JObj [(''stations'', JArr [])])]"

definition doc_str_coordinates :: json where
  "doc_str_coordinates =
     JObj [(''data'', JObj [(''stations'',
        JArr [JObj [(''station_id'', JStr ''A''), (''name'', JStr ''Station A''),
                    (''lat'', JStr ''north''), (''lon'', JStr ''east'')]])])]"

section \<open>Evaluating the model on concrete inputs\<close>

text \<open>
  On the equator the mean latitude is 0 and its cosine 1, so the distance is the
  difference of the longitudes, in radians, times the radius.
\<close>

lemma distance_equator:
  "lat a = 0 \<Longrightarrow> lat b = 0 \<Longrightarrow> distance a b = 6371000 * (\<bar>lon b - lon a\<bar> * pi / 180)"
  by (simp add: distance_def radians_def Let_def abs_mult)

text \<open>Rule sets that unfold the loops and tables on numerals.\<close>

lemmas bisect_eval = bisect_left_def bisect_right_def bisect_left_loop.simps
  bisect_right_loop.simps Let_def

lemmas example_stations = station_A_def station_B_def station_C_def

lemma replicate_small:
  "replicate 1 c = [c]" "replicate 2 c = [c, c]" "replicate 3 c = [c, c, c]"
  by (simp_all add: numeral_2_eq_2 numeral_3_eq_3)

lemmas fromtimestamp_eval = fromtimestamp_def MIN_TIMESTAMP_def MAX_TIMESTAMP_def ord2ymd_def
  DAYS_BEFORE_MONTH_def DAYS_IN_MONTH_def Let_def
lemmas isoformat_eval = isoformat_def zfill_def decimal.simps digit_char_def replicate_small

lemmas example_bikes = b1_far_def b1_near_def b2_disabled_def b3_enabled_def

section \<open>Properties of the binary search\<close>

declare bisect_left_loop.simps [simp del]
declare bisect_right_loop.simps [simp del]
declare decimal.simps [simp del]

lemma bisect_left_loop_stop: "\<not> lo < hi \<Longrightarrow> bisect_left_loop a x lo hi = lo"
  by (subst bisect_left_loop.simps) simp

lemma bisect_left_loop_step:
  "lo < hi \<Longrightarrow> bisect_left_loop a x lo hi =
     (if lon (a ! ((lo + hi) div 2)) < lon x
      then bisect_left_loop a x ((lo + hi) div 2 + 1) hi
      else bisect_left_loop a x lo ((lo + hi) div 2))"
  by (subst bisect_left_loop.simps) (simp add: Let_def)

lemma bisect_right_loop_stop: "\<not> lo < hi \<Longrightarrow> bisect_right_loop a x lo hi = lo"
  by (subst bisect_right_loop.simps) simp

lemma bisect_right_loop_step:
  "lo < hi \<Longrightarrow> bisect_right_loop a x lo hi =
     (if lon x < lon (a ! ((lo + hi) div 2))
      then bisect_right_loop a x lo ((lo + hi) div 2)
      else bisect_right_loop a x ((lo + hi) div 2 + 1) hi)"
  by (subst bisect_right_loop.simps) (simp add: Let_def)

lemma bisect_left_loop_bounds:
  "lo \<le> hi \<Longrightarrow> lo \<le> bisect_left_loop a x lo hi \<and> bisect_left_loop a x lo hi \<le> hi"
proof (induction a x lo hi rule: bisect_left_loop.induct)
  case (1 a x lo hi)
  show ?case
  proof (cases "lo < hi")
    case False
    with "1.prems" show ?thesis by (simp add: bisect_left_loop_stop)
  next
    case True
    let ?mid = "(lo + hi) div 2"
    from True have m: "lo \<le> ?mid" "?mid < hi" by auto
    show ?thesis
    proof (cases "lon (a ! ?mid) < lon x")
      case less: True
      from "1.IH"(1)[OF True refl less] m
      have "?mid + 1 \<le> bisect_left_loop a x (?mid + 1) hi
            \<and> bisect_left_loop a x (?mid + 1) hi \<le> hi" by simp
      with less True m show ?thesis by (simp add: bisect_left_loop_step)
    next
      case geq: False
      from "1.IH"(2)[OF True refl geq] m
      have "lo \<le> bisect_left_loop a x lo ?mid \<and> bisect_left_loop a x lo ?mid \<le> ?mid"
        by simp
      with geq True m show ?thesis by (simp add: bisect_left_loop_step)
    qed
  qed
qed

lemma bisect_right_loop_bounds:
  "lo \<le> hi \<Longrightarrow> lo \<le> bisect_right_loop a x lo hi \<and> bisect_right_loop a x lo hi \<le> hi"
proof (induction a x lo hi rule: bisect_right_loop.induct)
  case (1 a x lo hi)
  show ?case
  proof (cases "lo < hi")
    case False
    with "1.prems" show ?thesis by (simp add: bisect_right_loop_stop)
  next
    case True
    let ?mid = "(lo + hi) div 2"
    from True have m: "lo \<le> ?mid" "?mid < hi" by auto
    show ?thesis
    proof (cases "lon x < lon (a ! ?mid)")
      case less: True
      from "1.IH"(1)[OF True refl less] m
      have "lo \<le> bisect_right_loop a x lo ?mid \<and> bisect_right_loop a x lo ?mid \<le> ?mid"
        by simp
      with less True m show ?thesis by (simp add: bisect_right_loop_step)
    next
      case geq: False
      from "1.IH"(2)[OF True refl geq] m
      have "?mid + 1 \<le> bisect_right_loop a x (?mid + 1) hi
            \<and> bisect_right_loop a x (?mid + 1) hi \<le> hi" by simp
      with geq True m show ?thesis by (simp add: bisect_right_loop_step)
    qed
  qed
qed

lemma bisect_left_le_length: "bisect_left a x \<le> length a"
  using bisect_left_loop_bounds[of 0 "length a" a x] by (simp add: bisect_left_def)

lemma bisect_right_le_length: "bisect_right a x \<le> length a"
  using bisect_right_loop_bounds[of 0 "length a" a x] by (simp add: bisect_right_def)

lemma bisect_left_loop_le_right:
  "lo \<le> hi \<Longrightarrow> bisect_left_loop a x lo hi \<le> bisect_right_loop a x lo hi"
proof (induction a x lo hi rule: bisect_left_loop.induct)
  case (1 a x lo hi)
  show ?case
  proof (cases "lo < hi")
    case False
    then show ?thesis by (simp add: bisect_left_loop_stop bisect_right_loop_stop)
  next
    case True
    let ?mid = "(lo + hi) div 2"
    from True have m: "lo \<le> ?mid" "?mid < hi" by auto
    consider (west) "lon (a ! ?mid) < lon x" | (same) "lon (a ! ?mid) = lon x"
      | (east) "lon x < lon (a ! ?mid)" by linarith
    then show ?thesis
    proof cases
      case west
      from m have "?mid + 1 \<le> hi" by simp
      from "1.IH"(1)[OF True refl west this] west True show ?thesis
        by (simp add: bisect_left_loop_step bisect_right_loop_step)
    next
      case same
      from m have "bisect_left_loop a x lo ?mid \<le> ?mid"
        using bisect_left_loop_bounds[of lo ?mid a x] by simp
      moreover from m have "?mid + 1 \<le> bisect_right_loop a x (?mid + 1) hi"
        using bisect_right_loop_bounds[of "?mid + 1" hi a x] by simp
      ultimately show ?thesis using same True
        by (simp add: bisect_left_loop_step bisect_right_loop_step)
    next
      case east
      then have ng: "\<not> lon (a ! ?mid) < lon x" by simp
      from "1.IH"(2)[OF True refl ng m(1)] east True show ?thesis
        by (simp add: bisect_left_loop_step bisect_right_loop_step)
    qed
  qed
qed

lemma bisect_left_le_bisect_right: "bisect_left a x \<le> bisect_right a x"
  using bisect_left_loop_le_right[of 0 "length a" a x]
  by (simp add: bisect_left_def bisect_right_def)

text \<open>
  When no station in the searched range lies strictly east of the bike, every test
  \<open>x < a[mid]\<close> fails and \<open>bisect_right\<close> runs to the end of the range.
\<close>

lemma bisect_right_loop_at_end:
  "lo \<le> hi \<Longrightarrow> hi \<le> length a \<Longrightarrow> \<forall>i<hi. lon (a ! i) \<le> lon x
     \<Longrightarrow> bisect_right_loop a x lo hi = hi"
proof (induction a x lo hi rule: bisect_right_loop.induct)
  case (1 a x lo hi)
  show ?case
  proof (cases "lo < hi")
    case False
    with "1.prems" show ?thesis by (simp add: bisect_right_loop_stop)
  next
    case True
    let ?mid = "(lo + hi) div 2"
    from True have m: "lo \<le> ?mid" "?mid < hi" by auto
    from m "1.prems" have geq: "\<not> lon x < lon (a ! ?mid)" by (simp add: not_less)
    from m have "?mid + 1 \<le> hi" by simp
    from "1.IH"(2)[OF True refl geq this "1.prems"(2,3)]
    have "bisect_right_loop a x (?mid + 1) hi = hi" .
    with geq True show ?thesis by (simp add: bisect_right_loop_step)
  qed
qed

lemma bisect_right_at_end:
  "\<forall>s\<in>set a. lon s \<le> lon x \<Longrightarrow> bisect_right a x = length a"
  using bisect_right_loop_at_end[of 0 "length a" a x] by (simp add: bisect_right_def)

text \<open>
  So a bike at or east of the easternmost station (and any bike, when there are no
  stations) makes \<open>station_list[i2]\<close> an out-of-range read, unless
  \<open>station_list[i1]\<close> has already been one.
\<close>

lemma find_station_IndexError:
  "\<forall>s\<in>set station_list. lon s \<le> lon self \<Longrightarrow> find_station self station_list = Inl IndexError"
  by (simp add: find_station_def Let_def subscript_def bisect_right_at_end split: sum.splits)

text \<open>Where both reads are in range, the decision of lines 72 to 81 is total.\<close>

lemma find_station_in_range:
  assumes "bisect_right station_list self < length station_list"
  shows "find_station self station_list =
     (let s1 = station_list ! bisect_left station_list self;
          s2 = station_list ! bisect_right station_list self;
          d1 = distance s1 self; d2 = distance s2 self
      in if d1 < d2 \<and> d1 < 10 then Inr s1
         else if d2 < 10 then Inr s2
         else Inr (flex_parking self))"
proof -
  have "bisect_left station_list self \<le> bisect_right station_list self"
    by (rule bisect_left_le_bisect_right)
  with assms show ?thesis
    by (simp add: find_station_def Let_def subscript_def)
qed

section \<open>Frame properties of the reconciliation loop\<close>

text \<open>
  Reconciling bikes touches \<open>bikes\<close> and \<open>trips\<close> only.
\<close>

lemma update_bike_frame:
  "update_bike self bj = Inr self' \<Longrightarrow>
     last_updated self' = last_updated self \<and> ttl self' = ttl self
     \<and> stations self' = stations self \<and> city_name self' = city_name self
     \<and> free_bike_status_url self' = free_bike_status_url self"
  by (auto simp: update_bike_def Let_def split: option.splits if_splits sum.splits)

lemma update_bikes_frame:
  "update_bikes self bjs = Inr self' \<Longrightarrow>
     last_updated self' = last_updated self \<and> ttl self' = ttl self
     \<and> stations self' = stations self \<and> city_name self' = city_name self
     \<and> free_bike_status_url self' = free_bike_status_url self"
proof (induction bjs arbitrary: self)
  case Nil
  then show ?case by simp
next
  case (Cons bj rest)
  then obtain mid where m: "update_bike self bj = Inr mid" and r: "update_bikes mid rest = Inr self'"
    by (auto split: sum.splits)
  from Cons.IH[OF r] update_bike_frame[OF m] show ?case by simp
qed

section \<open>The nearest-station lookup\<close>

text \<open>
  Claim C1 says that \<open>find_station\<close> never fails, for every station list and query
  point, also at or beyond either end of the list and for an empty list. The code
  reads \<open>station_list[i1]\<close> and \<open>station_list[i2]\<close> without a bounds check (its
  guard \<open>is not None\<close> is always true), so it raises IndexError: for an empty
  station list, for a bike east of every station, and for a bike at the longitude of
  the easternmost station. The general statement is \<open>find_station_IndexError\<close>.
\<close>

theorem find_station_raises_IndexError:
  "find_station \<lparr>lat = 0, lon = 0, last_seen = 1000\<rparr> [] = Inl IndexError
   \<and> find_station \<lparr>lat = 0, lon = 25 / 10000, last_seen = 1200\<rparr> [station_A, station_B]
       = Inl IndexError
   \<and> find_station \<lparr>lat = 0, lon = 2 / 1000, last_seen = 1200\<rparr> [station_A, station_B]
       = Inl IndexError"
  by (simp add: find_station_def subscript_def bisect_eval example_stations)

text \<open>
  Claim C2 says that the lookup evaluates the left and the right neighbour of the
  insertion position. The code evaluates \<open>station_list[bisect_left]\<close> and
  \<open>station_list[bisect_right]\<close>, which both lie at or east of the bike;
  \<open>station_list[i1 - 1]\<close> is never read. Here the insertion position is 1, the left
  neighbour (station A, index 0) is about 1.1 m away, and the lookup returns flex
  parking.
\<close>

theorem find_station_skips_left_neighbour:
  "bisect_left [station_A, station_C] \<lparr>lat = 0, lon = 1 / 100000, last_seen = 1200\<rparr> = 1
   \<and> bisect_right [station_A, station_C] \<lparr>lat = 0, lon = 1 / 100000, last_seen = 1200\<rparr> = 1
   \<and> distance ([station_A, station_C] ! 0) \<lparr>lat = 0, lon = 1 / 100000, last_seen = 1200\<rparr> < 10
   \<and> find_station \<lparr>lat = 0, lon = 1 / 100000, last_seen = 1200\<rparr> [station_A, station_C]
       = Inr (flex_parking \<lparr>lat = 0, lon = 1 / 100000, last_seen = 1200\<rparr>)"
  using pi_ge_two pi_less_4
  by (simp add: find_station_def subscript_def bisect_eval example_stations distance_equator)

text \<open>
  Claim C3 says that flex parking is returned whenever no candidate station is within
  10 m. East of the last station no station is within 10 m and no candidate can be
  read: the lookup raises IndexError instead of returning flex parking. Where both
  reads are in range the fall-through to flex parking is as claimed
  (\<open>find_station_in_range\<close>).
\<close>

theorem find_station_no_flex_beyond_last_station:
  "\<not> distance station_A \<lparr>lat = 0, lon = 1, last_seen = 1200\<rparr> < 10
   \<and> find_station \<lparr>lat = 0, lon = 1, last_seen = 1200\<rparr> [station_A] = Inl IndexError"
  using pi_ge_two
  by (simp add: find_station_def subscript_def bisect_eval example_stations distance_equator)

section \<open>Reconciling one observation of a tracked bike\<close>

lemma new_trip_fields:
  "new_trip s e t0 t1 = Inr t \<Longrightarrow>
     isoformat_utc t0 = Inr (started_at t) \<and> isoformat_utc t1 = Inr (ended_at t)
     \<and> duration t = t1 - t0
     \<and> start_station_id t = sid s \<and> start_station_name t = sname s
     \<and> start_station_latitude t = lat s \<and> start_station_longitude t = lon s
     \<and> end_station_id t = sid e \<and> end_station_name t = sname e
     \<and> end_station_latitude t = lat e \<and> end_station_longitude t = lon e"
  by (auto simp: new_trip_def split: sum.splits)

text \<open>
  Claim C4. For a tracked bike (stored observation \<open>old\<close>, new observation
  \<open>Bike bj lu\<close>, whose time is \<open>lu\<close>), a reconciliation that returns has appended a
  trip exactly when \<open>distance old cur > 50\<close> and \<open>lu - last_seen old > 100\<close> both hold.
  Then the trip is \<open>new_trip\<close> of the station found for \<open>old\<close>, the station found for
  \<open>cur\<close>, \<open>last_seen old\<close> and \<open>lu\<close>, and the stored entry is \<open>cur\<close>. When either
  threshold fails, \<open>trips\<close> is unchanged.
\<close>

theorem trip_only_when_both_thresholds:
  assumes "last_updated self = Some lu"
      and "bikes self (bike_id bj) = Some old"
      and "update_bike self bj = Inr self'"
  shows "if distance old (Bike bj lu) > 50 \<and> lu - last_seen old > 100
         then (\<exists>start_station end_station t.
                 find_station old (stations self) = Inr start_station
               \<and> find_station (Bike bj lu) (stations self) = Inr end_station
               \<and> new_trip start_station end_station (last_seen old) lu = Inr t
               \<and> isoformat_utc (last_seen old) = Inr (started_at t)
               \<and> isoformat_utc lu = Inr (ended_at t)
               \<and> duration t = lu - last_seen old
               \<and> trips self' = trips self @ [t]
               \<and> bikes self' = (bikes self)(bike_id bj \<mapsto> Bike bj lu))
         else trips self' = trips self"
proof (cases "distance old (Bike bj lu) > 50 \<and> lu - last_seen old > 100")
  case True
  with assms obtain s e t where
    s: "find_station old (stations self) = Inr s" and
    e: "find_station (Bike bj lu) (stations self) = Inr e" and
    t: "new_trip s e (last_seen old) lu = Inr t" and
    r: "self' = self\<lparr>trips := trips self @ [t],
                       bikes := (bikes self)(bike_id bj \<mapsto> Bike bj lu)\<rparr>"
    by (auto simp: update_bike_def away_from_def Let_def split: sum.splits)
  from new_trip_fields[OF t] s e t r True show ?thesis by auto
next
  case False
  with assms show ?thesis
    by (auto simp: update_bike_def away_from_def Let_def split: if_splits)
qed

text \<open>
  An instance: \<open>b1\<close>, stored at station A at time 1000, is seen about 278 m east at
  time 1200. The trip starts at station A and ends at flex parking.
\<close>

theorem trip_only_when_both_thresholds_witness:
  "last_updated (tracking_b1 1200) = Some 1200
   \<and> bikes (tracking_b1 1200) (bike_id b1_far) = Some \<lparr>lat = 0, lon = 0, last_seen = 1000\<rparr>
   \<and> distance \<lparr>lat = 0, lon = 0, last_seen = 1000\<rparr> (Bike b1_far 1200) > 50
   \<and> 1200 - last_seen \<lparr>lat = 0, lon = 0, last_seen = 1000\<rparr> > 100
   \<and> update_bike (tracking_b1 1200) b1_far =
       Inr ((tracking_b1 1200)
             \<lparr>trips :=
                [\<lparr>started_at = ''1970-01-01 00:16:40+00:00'',
                  ended_at = ''1970-01-01 00:20:00+00:00'',
                  duration = 200,
                  start_station_id = StrId ''A'',
                  start_station_name = ''Station A'',
                  start_station_latitude = 0,
                  start_station_longitude = 0,
                  end_station_id = IntId 0,
                  end_station_name = ''Flex parking'',
                  end_station_latitude = 0,
                  end_station_longitude = 25 / 10000\<rparr>],
              bikes := [''b1'' \<mapsto> \<lparr>lat = 0, lon = 25 / 10000, last_seen = 1200\<rparr>]\<rparr>)"
proof -
  let ?old = "\<lparr>lat = 0, lon = 0, last_seen = 1000\<rparr> :: bike"
  let ?cur = "\<lparr>lat = 0, lon = 25 / 10000, last_seen = 1200\<rparr> :: bike"
  have lu: "last_updated (tracking_b1 1200) = Some 1200"
    and old: "bikes (tracking_b1 1200) (bike_id b1_far) = Some ?old"
    by (simp_all add: tracking_b1_def b1_far_def)
  have cur: "Bike b1_far 1200 = ?cur" by (simp add: Bike_def b1_far_def)
  have far: "distance ?old ?cur > 50"
    using pi_ge_two by (simp add: distance_equator)
  have s: "find_station ?old [station_A, station_B, station_C] = Inr station_A"
    using pi_gt_zero
    by (simp add: find_station_def subscript_def bisect_eval example_stations distance_equator)
  have e: "find_station ?cur [station_A, station_B, station_C] = Inr (flex_parking ?cur)"
    using pi_ge_two
    by (simp add: find_station_def subscript_def bisect_eval example_stations distance_equator)
  have t0: "isoformat_utc 1000 = Inr ''1970-01-01 00:16:40+00:00''"
    by (simp add: isoformat_utc_def fromtimestamp_eval) (simp add: isoformat_eval)
  have t1: "isoformat_utc 1200 = Inr ''1970-01-01 00:20:00+00:00''"
    by (simp add: isoformat_utc_def fromtimestamp_eval) (simp add: isoformat_eval)
  have ret: "update_bike (tracking_b1 1200) b1_far =
       Inr ((tracking_b1 1200)
             \<lparr>trips :=
                [\<lparr>started_at = ''1970-01-01 00:16:40+00:00'',
                  ended_at = ''1970-01-01 00:20:00+00:00'',
                  duration = 200,
                  start_station_id = StrId ''A'',
                  start_station_name = ''Station A'',
                  start_station_latitude = 0,
                  start_station_longitude = 0,
                  end_station_id = IntId 0,
                  end_station_name = ''Flex parking'',
                  end_station_latitude = 0,
                  end_station_longitude = 25 / 10000\<rparr>],
              bikes := [''b1'' \<mapsto> \<lparr>lat = 0, lon = 25 / 10000, last_seen = 1200\<rparr>]\<rparr>)"
    using far s e t0 t1
    by (simp add: update_bike_def away_from_def tracking_b1_def b1_far_def Bike_def
        new_trip_def flex_parking_def Station_def station_A_def)
  from trip_only_when_both_thresholds[OF lu old ret] lu old far ret cur
  show ?thesis by simp
qed

text \<open>
  Claim C5. In the no-trip case for a tracked bike, reconciliation returns, the stored
  \<open>last_seen\<close> becomes the new observation's time, the stored coordinates become the
  new observation's if they differ from the stored ones and stay as they were
  otherwise; nothing else in the registry changes.
\<close>

theorem no_trip_refreshes_time_and_moved_position:
  assumes "last_updated self = Some lu"
      and "bikes self (bike_id bj) = Some old"
      and "\<not> (distance old (Bike bj lu) > 50 \<and> lu - last_seen old > 100)"
  shows "update_bike self bj =
           Inr (self\<lparr>bikes := (bikes self)(bike_id bj \<mapsto>
                  (if lat bj \<noteq> lat old \<or> lon bj \<noteq> lon old
                   then \<lparr>lat = lat bj, lon = lon bj, last_seen = lu\<rparr>
                   else \<lparr>lat = lat old, lon = lon old, last_seen = lu\<rparr>))\<rparr>)"
  using assms
  by (cases old) (auto simp: update_bike_def away_from_def has_moved_def Bike_def Let_def)

text \<open>An instance: \<open>b1\<close> is seen about 33 m east of station A, 50 seconds later.\<close>

theorem no_trip_refreshes_time_and_moved_position_witness:
  "last_updated (tracking_b1 1050) = Some 1050
   \<and> bikes (tracking_b1 1050) (bike_id b1_near) = Some \<lparr>lat = 0, lon = 0, last_seen = 1000\<rparr>
   \<and> \<not> (distance \<lparr>lat = 0, lon = 0, last_seen = 1000\<rparr> (Bike b1_near 1050) > 50
         \<and> 1050 - last_seen \<lparr>lat = 0, lon = 0, last_seen = 1000\<rparr> > 100)
   \<and> update_bike (tracking_b1 1050) b1_near =
       Inr ((tracking_b1 1050)
             \<lparr>bikes := [''b1'' \<mapsto> \<lparr>lat = 0, lon = 3 / 10000, last_seen = 1050\<rparr>]\<rparr>)"
proof -
  let ?old = "\<lparr>lat = 0, lon = 0, last_seen = 1000\<rparr> :: bike"
  have lu: "last_updated (tracking_b1 1050) = Some 1050"
    and old: "bikes (tracking_b1 1050) (bike_id b1_near) = Some ?old"
    by (simp_all add: tracking_b1_def b1_near_def)
  have no: "\<not> (distance ?old (Bike b1_near 1050) > 50 \<and> 1050 - last_seen ?old > 100)"
    by simp
  from no_trip_refreshes_time_and_moved_position[OF lu old no] lu old no
  show ?thesis by (simp add: b1_near_def tracking_b1_def)
qed

section \<open>Duplicate and regressing payloads\<close>

text \<open>
  Claim C6. A payload whose \<open>last_updated\<close> equals the stored \<open>last_updated\<close> is
  skipped: \<open>update\<close> returns normally with the registry unchanged, so no trip is
  appended to \<open>trips\<close> and \<open>bikes\<close>, \<open>ttl\<close> and \<open>last_updated\<close> keep their values.
\<close>

theorem update_same_last_updated_noop:
  "last_updated self = Some (p_last_updated json) \<Longrightarrow> update self (Loaded json) = Inr self"
  by (simp add: update_def)

text \<open>An instance: the stored and the submitted \<open>last_updated\<close> are both 1000.\<close>

theorem update_same_last_updated_noop_witness:
  "last_updated \<lparr>city_name = ''Berlin'', free_bike_status_url = ''u'', bikes = Map.empty,
       ttl = Some 60, last_updated = Some 1000, trips = [], stations = []\<rparr>
     = Some (p_last_updated \<lparr>p_last_updated = 1000, p_ttl = 30,
          p_bikes = [\<lparr>lat = 0, lon = 0, bike_id = ''a'', is_disabled = 0\<rparr>]\<rparr>)
   \<and> update \<lparr>city_name = ''Berlin'', free_bike_status_url = ''u'', bikes = Map.empty,
       ttl = Some 60, last_updated = Some 1000, trips = [], stations = []\<rparr>
      (Loaded \<lparr>p_last_updated = 1000, p_ttl = 30,
          p_bikes = [\<lparr>lat = 0, lon = 0, bike_id = ''a'', is_disabled = 0\<rparr>]\<rparr>)
     = Inr \<lparr>city_name = ''Berlin'', free_bike_status_url = ''u'', bikes = Map.empty,
       ttl = Some 60, last_updated = Some 1000, trips = [], stations = []\<rparr>"
  using update_same_last_updated_noop
    [of "\<lparr>city_name = ''Berlin'', free_bike_status_url = ''u'', bikes = Map.empty,
       ttl = Some 60, last_updated = Some 1000, trips = [], stations = []\<rparr>"
        "\<lparr>p_last_updated = 1000, p_ttl = 30,
          p_bikes = [\<lparr>lat = 0, lon = 0, bike_id = ''a'', is_disabled = 0\<rparr>]\<rparr>"]
  by simp

text \<open>
  Claim C7, as stated, fails: the guard of \<open>update\<close> tests equality only, so a
  payload whose \<open>last_updated\<close> is smaller than the stored one is processed. Here the
  stored value is 1000 and the payload's is 500: \<open>last_updated\<close> and \<open>ttl\<close> are
  overwritten and the payload's bike is inserted.
\<close>

theorem update_regressing_payload_counterexample:
  "p_last_updated \<lparr>p_last_updated = 500, p_ttl = 30,
          p_bikes = [\<lparr>lat = 0, lon = 0, bike_id = ''a'', is_disabled = 0\<rparr>]\<rparr> < 1000
   \<and> update \<lparr>city_name = ''Berlin'', free_bike_status_url = ''u'', bikes = Map.empty,
       ttl = Some 60, last_updated = Some 1000, trips = [], stations = []\<rparr>
      (Loaded \<lparr>p_last_updated = 500, p_ttl = 30,
          p_bikes = [\<lparr>lat = 0, lon = 0, bike_id = ''a'', is_disabled = 0\<rparr>]\<rparr>)
     = Inr \<lparr>city_name = ''Berlin'', free_bike_status_url = ''u'',
            bikes = [''a'' \<mapsto> \<lparr>lat = 0, lon = 0, last_seen = 500\<rparr>],
            ttl = Some 30, last_updated = Some 500, trips = [], stations = []\<rparr>"
  by (simp add: update_def update_bike_def Bike_def)

text \<open>
  Claim C7, amended. A payload whose \<open>last_updated\<close> is strictly less than the stored
  one is not rejected: \<open>update\<close> overwrites the stored \<open>last_updated\<close> and \<open>ttl\<close>
  with the payload's and reconciles its bikes, exactly as for a newer payload; when
  \<open>update\<close> returns, the stored \<open>last_updated\<close> and \<open>ttl\<close> are the payload's.
\<close>

theorem update_regressing_payload_processed:
  assumes "last_updated self = Some t" and "p_last_updated json < t"
  shows "update self (Loaded json)
           = update_bikes (self\<lparr>last_updated := Some (p_last_updated json),
                                 ttl := Some (p_ttl json)\<rparr>) (p_bikes json)
         \<and> (\<forall>self'. update self (Loaded json) = Inr self' \<longrightarrow>
               last_updated self' = Some (p_last_updated json) \<and> ttl self' = Some (p_ttl json))"
proof -
  from assms have ne: "Some (p_last_updated json) \<noteq> last_updated self" by simp
  then have eq: "update self (Loaded json)
           = update_bikes (self\<lparr>last_updated := Some (p_last_updated json),
                                 ttl := Some (p_ttl json)\<rparr>) (p_bikes json)"
    by (simp add: update_def)
  show ?thesis
  proof (intro conjI allI impI)
    show "update self (Loaded json)
           = update_bikes (self\<lparr>last_updated := Some (p_last_updated json),
                                 ttl := Some (p_ttl json)\<rparr>) (p_bikes json)" by (rule eq)
  next
    fix self' assume "update self (Loaded json) = Inr self'"
    with eq have "update_bikes (self\<lparr>last_updated := Some (p_last_updated json),
                                 ttl := Some (p_ttl json)\<rparr>) (p_bikes json) = Inr self'" by simp
    from update_bikes_frame[OF this]
    show "last_updated self' = Some (p_last_updated json)" "ttl self' = Some (p_ttl json)" by simp_all
  qed
qed


text \<open>An instance: stored 1000, submitted 500.\<close>

theorem update_regressing_payload_processed_witness:
  "last_updated \<lparr>city_name = ''Berlin'', free_bike_status_url = ''u'', bikes = Map.empty,
       ttl = Some 60, last_updated = Some 1000, trips = [], stations = []\<rparr> = Some 1000
   \<and> p_last_updated \<lparr>p_last_updated = 500, p_ttl = 30,
          p_bikes = [\<lparr>lat = 0, lon = 0, bike_id = ''a'', is_disabled = 0\<rparr>]\<rparr> < 1000
   \<and> update \<lparr>city_name = ''Berlin'', free_bike_status_url = ''u'', bikes = Map.empty,
       ttl = Some 60, last_updated = Some 1000, trips = [], stations = []\<rparr>
      (Loaded \<lparr>p_last_updated = 500, p_ttl = 30,
          p_bikes = [\<lparr>lat = 0, lon = 0, bike_id = ''a'', is_disabled = 0\<rparr>]\<rparr>)
     = update_bikes
         \<lparr>city_name = ''Berlin'', free_bike_status_url = ''u'', bikes = Map.empty,
          ttl = Some 30, last_updated = Some 500, trips = [], stations = []\<rparr>
         [\<lparr>lat = 0, lon = 0, bike_id = ''a'', is_disabled = 0\<rparr>]"
  using update_regressing_payload_processed
    [of "\<lparr>city_name = ''Berlin'', free_bike_status_url = ''u'', bikes = Map.empty,
       ttl = Some 60, last_updated = Some 1000, trips = [], stations = []\<rparr>"
        1000
        "\<lparr>p_last_updated = 500, p_ttl = 30,
          p_bikes = [\<lparr>lat = 0, lon = 0, bike_id = ''a'', is_disabled = 0\<rparr>]\<rparr>"]
  by simp

section \<open>Construction of the registry\<close>

subsection \<open>The outcomes of the constructor\<close>

lemma list_sort_Nil: "list_sort [] outcome \<longleftrightarrow> outcome = Inr []"
  by (simp add: list_sort_def)

lemma list_sort_single: "list_sort [s] outcome \<longleftrightarrow> outcome = Inr [s]"
  by (simp add: list_sort_def)

lemma init_raises:
  "unsorted_stations info = Inl e \<Longrightarrow> init city info url outcome \<longleftrightarrow> outcome = Inl e"
  by (simp add: init_def)

lemma init_no_stations:
  "unsorted_stations info = Inr [] \<Longrightarrow>
     init city info url outcome \<longleftrightarrow> outcome = Inr (empty_registry city url)"
  by (cases outcome) (auto simp: init_def list_sort_Nil empty_registry_def)

lemma getitem_member_of:
  "getitem x key = (case member_of x key of None \<Rightarrow> (case x of JObj items \<Rightarrow> Inl KeyError | _ \<Rightarrow> Inl TypeError) | Some v \<Rightarrow> Inr v)"
  by (cases x) (simp_all add: member_of_def split: option.splits)

lemma load_stations_json_missing:
  assumes "station_list_of info = None"
  shows "\<exists>e. load_stations_json info = Inl e"
proof (cases info)
  case (Returns document)
  show ?thesis
  proof (cases "member_of document ''data''")
    case None
    then show ?thesis
      by (cases document) (simp_all add: Returns load_stations_json_def member_of_def)
  next
    case (Some data)
    with assms Returns have "member_of data ''stations'' = None"
      by (simp add: station_list_of_def)
    then have "\<exists>e. getitem data ''stations'' = Inl e"
      by (cases data) (simp_all add: member_of_def)
    moreover from Some have "getitem document ''data'' = Inr data"
      by (cases document) (simp_all add: member_of_def)
    ultimately show ?thesis by (simp add: Returns load_stations_json_def)
  qed
qed (simp_all add: load_stations_json_def)

lemma load_stations_json_present:
  assumes "station_list_of info = Some x"
  shows "load_stations_json info = Inr x"
proof -
  from assms obtain document where i: "info = Returns document"
    by (cases info) (simp_all add: station_list_of_def)
  with assms obtain data where d: "member_of document ''data'' = Some data"
    and s: "member_of data ''stations'' = Some x"
    by (auto simp: station_list_of_def split: option.splits)
  from d have "getitem document ''data'' = Inr data"
    by (cases document) (simp_all add: member_of_def)
  moreover from s have "getitem data ''stations'' = Inr x"
    by (cases data) (simp_all add: member_of_def)
  ultimately show ?thesis by (simp add: i load_stations_json_def)
qed

lemma Station_init_not_entry:
  assumes "\<not> station_entry x"
  shows "\<exists>e. Station_init x = Inl e"
proof (cases x)
  case (JObj items)
  with assms have "map_of items ''station_id'' = None \<or> map_of items ''name'' = None
      \<or> map_of items ''lat'' = None \<or> map_of items ''lon'' = None"
    by (auto simp: station_entry_def map_of_eq_None_iff)
  then show ?thesis
    by (auto simp: JObj Station_init_def split: option.splits)
qed (simp_all add: Station_init_def)

lemma append_stations_not_entry:
  assumes "\<not> list_all station_entry entries"
  shows "\<exists>e. append_stations objs entries = Inl e"
  using assms
proof (induction entries arbitrary: objs)
  case Nil
  then show ?case by simp
next
  case (Cons x rest)
  show ?case
  proof (cases "Station_init x")
    case (Inl e)
    then show ?thesis by simp
  next
    case (Inr s)
    with Station_init_not_entry[of x] have "station_entry x" by auto
    with Cons.prems have "\<not> list_all station_entry rest" by simp
    from Cons.IH[OF this, of "objs @ [s]"] Inr show ?thesis by simp
  qed
qed

lemma Station_init_str: "Station_init (JStr s) = Inl TypeError"
  by (simp add: Station_init_def)

lemma iterate_malformed:
  assumes "malformed x" "\<not> no_entry x"
  shows "\<exists>e. (case iterate x of Inl e \<Rightarrow> Inl e | Inr entries \<Rightarrow> append_stations [] entries) = Inl e"
proof (cases x)
  case (JArr entries)
  with assms(1) have "\<not> list_all station_entry entries" by (simp add: malformed_def)
  from append_stations_not_entry[OF this, of "[]"] show ?thesis by (simp add: JArr)
next
  case (JObj items)
  with assms(2) obtain item rest where "items = item # rest"
    by (cases items) (simp_all add: no_entry_def)
  then show ?thesis by (simp add: JObj Station_init_str)
next
  case (JStr s)
  with assms(2) obtain c rest where "s = c # rest"
    by (cases s) (simp_all add: no_entry_def)
  then show ?thesis by (simp add: JStr Station_init_str)
qed simp_all

lemma iterate_no_entry: "no_entry x \<Longrightarrow> iterate x = Inr []"
  by (auto simp: no_entry_def)

lemma unsorted_stations_missing:
  "station_list_of info = None \<Longrightarrow> \<exists>e. unsorted_stations info = Inl e"
  using load_stations_json_missing[of info] by (auto simp: unsorted_stations_def)

lemma unsorted_stations_malformed:
  "station_list_of info = Some x \<Longrightarrow> malformed x \<Longrightarrow> \<not> no_entry x
     \<Longrightarrow> \<exists>e. unsorted_stations info = Inl e"
  using iterate_malformed[of x] by (simp add: unsorted_stations_def load_stations_json_present)

lemma unsorted_stations_no_entry:
  "station_list_of info = Some x \<Longrightarrow> no_entry x \<Longrightarrow> unsorted_stations info = Inr []"
  by (simp add: unsorted_stations_def load_stations_json_present iterate_no_entry)

subsection \<open>Station lists of the expected form, and the exceptions\<close>

lemma insort_key_map:
  "insort_key k (f x) (map f xs) = map f (insort_key (\<lambda>y. k (f y)) x xs)"
  by (induction xs) simp_all

lemma sort_key_map: "sort_key k (map f xs) = map f (sort_key (\<lambda>y. k (f y)) xs)"
  by (induction xs) (simp_all add: insort_key_map)

lemma sort_key_short: "length xs \<le> 1 \<Longrightarrow> sort_key k xs = xs"
  by (cases xs) simp_all

lemma Station_init_json_of_station:
  "Station_init (json_of_station s) = Inr (obj_of_station (Station s))"
  by (simp add: Station_init_def json_of_station_def obj_of_station_def Station_def)

lemma append_stations_json_of_station:
  "append_stations objs (map json_of_station entries)
     = Inr (objs @ map (\<lambda>s. obj_of_station (Station s)) entries)"
  by (induction entries arbitrary: objs) (simp_all add: Station_init_json_of_station)

lemma unsorted_stations_station_information:
  "unsorted_stations (Returns (station_information entries))
     = Inr (map obj_of_station (map Station entries))"
  by (simp add: unsorted_stations_def load_stations_json_def station_information_def
      append_stations_json_of_station)

lemma list_sort_obj_of_station:
  "list_sort (map obj_of_station xs) outcome
     \<longleftrightarrow> outcome = Inr (map obj_of_station (sort_key lon xs))"
proof (cases "length xs \<le> 1")
  case True
  then show ?thesis by (simp add: list_sort_def sort_key_short)
next
  case False
  have "list_all (\<lambda>s. is_number (obj_lon s)) (map obj_of_station xs)"
    by (simp add: list_all_iff obj_of_station_def)
  with False show ?thesis
    by (simp add: list_sort_def sort_key_map obj_of_station_def)
qed

text \<open>
  On the document of a station list whose stations have an identifier, a name and two
  floats, the constructor returns, and the index holds these stations sorted by
  longitude.
\<close>

lemma init_station_information:
  "init city (Returns (station_information entries)) url outcome
     \<longleftrightarrow> outcome = Inr \<lparr>self_city_name = city, self_free_bike_status_url = url,
                         self_bikes = Map.empty, self_ttl = None, self_last_updated = None,
                         self_trips = [],
                         self_stations = map obj_of_station (sort_key lon (map Station entries))\<rparr>"
  unfolding init_def unsorted_stations_station_information
  by (cases outcome) (auto simp del: map_map simp: list_sort_obj_of_station)

text \<open>
  The exception of each failing path: the \<open>except\<close> clause, an exception that the
  clause does not catch, a document that is not a dict, a document without \<open>data\<close>,
  an entry without \<open>lon\<close>, an entry that is not a dict, a station list that is a
  number, and a comparison of a number with a str in \<open>sort\<close>.
\<close>

lemma init_exceptions:
  "init city RaisesIOError url (Inl (SystemExit ''Could not load station info json, exiting...''))"
  "init city RaisesJSONDecodeError url
     (Inl (SystemExit ''Could not load station info json, exiting...''))"
  "init city (RaisesOther ''UnicodeDecodeError'') url (Inl (Uncaught ''UnicodeDecodeError''))"
  "init city (Returns (JArr [])) url (Inl TypeError)"
  "init city (Returns (JObj [])) url (Inl KeyError)"
  "init city (Returns doc_data_is_list) url (Inl TypeError)"
  "init city (Returns doc_entry_without_lon) url (Inl KeyError)"
  "init city (Returns (JObj [(''data'', JObj [(''stations'', JArr [JInt 1])])])) url (Inl TypeError)"
  "init city (Returns (JObj [(''data'', JObj [(''stations'', JInt 1)])])) url (Inl TypeError)"
  "init city (Returns (JObj [(''data'', JObj [(''stations'',
      JArr [JObj [(''station_id'', JInt 1), (''name'', JStr ''a''), (''lat'', JInt 0), (''lon'', JInt 0)],
            JObj [(''station_id'', JInt 2), (''name'', JStr ''b''), (''lat'', JInt 0), (''lon'', JStr ''east'')]])])]))
      url (Inl TypeError)"
  by (simp_all add: init_def unsorted_stations_def load_stations_json_def Station_init_def
      list_sort_def doc_data_is_list_def doc_entry_without_lon_def)

text \<open>
  The constructor does not look at what an entry has under the four keys: a station
  list whose one entry has strs as coordinates gives a registry with that station.
\<close>

lemma init_str_coordinates_succeeds:
  "init ''Berlin'' (Returns doc_str_coordinates) ''u''
     (Inr \<lparr>self_city_name = ''Berlin'', self_free_bike_status_url = ''u'',
           self_bikes = Map.empty, self_ttl = None, self_last_updated = None, self_trips = [],
           self_stations = [\<lparr>obj_id = JStr ''A'', obj_name = JStr ''Station A'',
                             obj_lat = JStr ''north'', obj_lon = JStr ''east''\<rparr>]\<rparr>)"
  by (simp add: init_def unsorted_stations_def load_stations_json_def Station_init_def
      list_sort_def doc_str_coordinates_def)

subsection \<open>Missing, malformed and empty station lists\<close>

text \<open>
  Claim C8, as stated, fails: \<open>__init__\<close> has no check on the number of stations. For
  \<open>{"data": {"stations": []}}\<close> the loop runs no time, \<open>sort\<close> of the empty list returns,
  and the constructor returns a registry with an empty index; it raises nothing.
\<close>

theorem init_empty_station_list_succeeds:
  "station_list_of (Returns doc_no_stations) = Some (JArr [])
   \<and> init ''Berlin'' (Returns doc_no_stations) ''u'' (Inr (empty_registry ''Berlin'' ''u''))
   \<and> \<not> (\<exists>e. init ''Berlin'' (Returns doc_no_stations) ''u'' (Inl e))"
proof -
  have s: "station_list_of (Returns doc_no_stations) = Some (JArr [])"
    by (simp add: station_list_of_def member_of_def doc_no_stations_def)
  have "unsorted_stations (Returns doc_no_stations) = Inr []"
    by (simp add: unsorted_stations_def load_stations_json_def doc_no_stations_def)
  from init_no_stations[OF this] s show ?thesis by simp
qed

text \<open>
  Claim C8, amended. Construction fails, with the exit or with an exception that leaves
  the constructor, whenever the station list is missing (the source gives no document,
  or the document has no member \<open>stations\<close> of a member \<open>data\<close>), and whenever it is
  malformed (not an array of objects that each have \<open>station_id\<close>, \<open>name\<close>, \<open>lat\<close> and
  \<open>lon\<close>) and not empty. For an empty station list (an empty array, and also an empty
  object or an empty string in its place) construction does not fail: its one outcome
  is the registry with an empty index.
\<close>

theorem init_fails_unless_no_entry:
  "(station_list_of info = None
      \<or> (\<exists>x. station_list_of info = Some x \<and> malformed x \<and> \<not> no_entry x)
    \<longrightarrow> (\<exists>e. \<forall>outcome. init city info url outcome \<longleftrightarrow> outcome = Inl e))
   \<and> ((\<exists>x. station_list_of info = Some x \<and> no_entry x)
    \<longrightarrow> (\<forall>outcome. init city info url outcome \<longleftrightarrow> outcome = Inr (empty_registry city url)))"
proof (intro conjI impI)
  assume "station_list_of info = None
      \<or> (\<exists>x. station_list_of info = Some x \<and> malformed x \<and> \<not> no_entry x)"
  then obtain e where "unsorted_stations info = Inl e"
    using unsorted_stations_missing[of info] unsorted_stations_malformed[of info] by blast
  then have "\<forall>outcome. init city info url outcome \<longleftrightarrow> outcome = Inl e"
    by (simp add: init_raises)
  then show "\<exists>e. \<forall>outcome. init city info url outcome \<longleftrightarrow> outcome = Inl e" ..
next
  assume "\<exists>x. station_list_of info = Some x \<and> no_entry x"
  then have "unsorted_stations info = Inr []"
    using unsorted_stations_no_entry[of info] by blast
  then show "\<forall>outcome. init city info url outcome \<longleftrightarrow> outcome = Inr (empty_registry city url)"
    by (simp add: init_no_stations)
qed

text \<open>
  Instances: \<open>{"data": []}\<close> has no station list and the constructor raises TypeError;
  a station list with an entry without \<open>lon\<close> is malformed and the constructor raises
  KeyError; for the empty station list the constructor returns.
\<close>

theorem init_fails_unless_no_entry_witness:
  "station_list_of (Returns doc_data_is_list) = None
   \<and> init ''Berlin'' (Returns doc_data_is_list) ''u'' (Inl TypeError)
   \<and> \<not> init ''Berlin'' (Returns doc_data_is_list) ''u'' (Inr (empty_registry ''Berlin'' ''u''))
   \<and> station_list_of (Returns doc_entry_without_lon)
       = Some (JArr [JObj [(''station_id'', JStr ''A''), (''name'', JStr ''Station A''),
                           (''lat'', JFloat 0)]])
   \<and> malformed (JArr [JObj [(''station_id'', JStr ''A''), (''name'', JStr ''Station A''),
                           (''lat'', JFloat 0)]])
   \<and> \<not> no_entry (JArr [JObj [(''station_id'', JStr ''A''), (''name'', JStr ''Station A''),
                           (''lat'', JFloat 0)]])
   \<and> init ''Berlin'' (Returns doc_entry_without_lon) ''u'' (Inl KeyError)
   \<and> \<not> init ''Berlin'' (Returns doc_entry_without_lon) ''u'' (Inr (empty_registry ''Berlin'' ''u''))
   \<and> station_list_of (Returns doc_no_stations) = Some (JArr [])
   \<and> no_entry (JArr [])
   \<and> init ''Berlin'' (Returns doc_no_stations) ''u'' (Inr (empty_registry ''Berlin'' ''u''))
   \<and> \<not> init ''Berlin'' (Returns doc_no_stations) ''u'' (Inl TypeError)"
proof -
  let ?entry = "JObj [(''station_id'', JStr ''A''), (''name'', JStr ''Station A''),
                      (''lat'', JFloat 0)]"
  have missing: "station_list_of (Returns doc_data_is_list) = None"
    by (simp add: station_list_of_def member_of_def doc_data_is_list_def)
  have present: "station_list_of (Returns doc_entry_without_lon) = Some (JArr [?entry])"
    by (simp add: station_list_of_def member_of_def doc_entry_without_lon_def)
  have bad: "malformed (JArr [?entry])" "\<not> no_entry (JArr [?entry])"
    by (simp_all add: malformed_def station_entry_def no_entry_def)
  have empty: "station_list_of (Returns doc_no_stations) = Some (JArr [])" "no_entry (JArr [])"
    by (simp_all add: station_list_of_def member_of_def doc_no_stations_def no_entry_def)
  have e1: "init ''Berlin'' (Returns doc_data_is_list) ''u'' (Inl TypeError)"
    by (simp add: init_def unsorted_stations_def load_stations_json_def doc_data_is_list_def)
  have e2: "init ''Berlin'' (Returns doc_entry_without_lon) ''u'' (Inl KeyError)"
    by (simp add: init_def unsorted_stations_def load_stations_json_def Station_init_def
        doc_entry_without_lon_def)
  from init_fails_unless_no_entry[of "Returns doc_data_is_list" "''Berlin''" "''u''"] missing
  obtain e where a1: "\<forall>outcome. init ''Berlin'' (Returns doc_data_is_list) ''u'' outcome
      \<longleftrightarrow> outcome = Inl e" by blast
  from init_fails_unless_no_entry[of "Returns doc_entry_without_lon" "''Berlin''" "''u''"]
    present bad
  obtain e' where a2: "\<forall>outcome. init ''Berlin'' (Returns doc_entry_without_lon) ''u'' outcome
      \<longleftrightarrow> outcome = Inl e'" by blast
  from init_fails_unless_no_entry[of "Returns doc_no_stations" "''Berlin''" "''u''"] empty
  have a3: "\<forall>outcome. init ''Berlin'' (Returns doc_no_stations) ''u'' outcome
      \<longleftrightarrow> outcome = Inr (empty_registry ''Berlin'' ''u'')" by blast
  from a1 a2 a3 e1 e2 missing present bad empty show ?thesis by simp
qed

section \<open>Disabled bikes that are not tracked\<close>

lemma update_bike_disabled_unseen:
  "last_updated self = Some lu \<Longrightarrow> bikes self (bike_id bj) = None \<Longrightarrow> is_disabled bj \<noteq> 0
     \<Longrightarrow> update_bike self bj = Inr self"
  by (simp add: update_bike_def)

lemma update_bike_keeps_absent:
  "bikes self v = None \<Longrightarrow> bike_id bj = v \<longrightarrow> is_disabled bj \<noteq> 0
     \<Longrightarrow> update_bike self bj = Inr self' \<Longrightarrow> bikes self' v = None"
  by (auto simp: update_bike_def Let_def split: option.splits if_splits sum.splits)

lemma update_bikes_keeps_absent:
  "bikes self v = None \<Longrightarrow> \<forall>bj\<in>set bjs. bike_id bj = v \<longrightarrow> is_disabled bj \<noteq> 0
     \<Longrightarrow> update_bikes self bjs = Inr self' \<Longrightarrow> bikes self' v = None"
proof (induction bjs arbitrary: self)
  case Nil
  then show ?case by simp
next
  case (Cons bj rest)
  from Cons.prems(3) obtain mid where
    m: "update_bike self bj = Inr mid" and r: "update_bikes mid rest = Inr self'"
    by (auto split: sum.splits)
  from Cons.prems(1,2) m have "bikes mid v = None"
    by (intro update_bike_keeps_absent[of self v bj mid]) simp_all
  with Cons.IH[of mid] Cons.prems(2) r show ?case by simp
qed

lemma update_keeps_absent:
  assumes "bikes self v = None"
      and "\<forall>bj\<in>set (p_bikes json). bike_id bj = v \<longrightarrow> is_disabled bj \<noteq> 0"
      and "update self (Loaded json) = Inr self'"
  shows "bikes self' v = None"
proof (cases "Some (p_last_updated json) = last_updated self")
  case True
  with assms show ?thesis by (simp add: update_def)
next
  case False
  with assms(3) have "update_bikes
      (self\<lparr>last_updated := Some (p_last_updated json), ttl := Some (p_ttl json)\<rparr>)
      (p_bikes json) = Inr self'"
    by (simp add: update_def)
  with assms(1,2) show ?thesis
    by (intro update_bikes_keeps_absent[of _ v "p_bikes json" self']) simp_all
qed

text \<open>
  Claim C10. A payload is one snapshot of the fleet: each vehicle id occurs in it once.
  For every observation in the payload whose id is not in \<open>bikes\<close> and whose
  \<open>is_disabled\<close> is nonzero, the payload's reconciliation, when it returns, leaves
  \<open>bikes\<close> without an entry for that id. (The step for that observation leaves the
  whole registry as it is: \<open>update_bike_disabled_unseen\<close>.)
\<close>

theorem disabled_unseen_never_inserted:
  assumes "distinct (map bike_id (p_bikes json))"
      and "bj \<in> set (p_bikes json)"
      and "bikes self (bike_id bj) = None"
      and "is_disabled bj \<noteq> 0"
      and "update self (Loaded json) = Inr self'"
  shows "bikes self' (bike_id bj) = None"
proof -
  from assms(1) have "inj_on bike_id (set (p_bikes json))"
    by (simp add: distinct_map)
  with assms(2) have "\<forall>bj'\<in>set (p_bikes json). bike_id bj' = bike_id bj \<longrightarrow> bj' = bj"
    by (auto dest: inj_onD)
  with assms(4) have
    "\<forall>bj'\<in>set (p_bikes json). bike_id bj' = bike_id bj \<longrightarrow> is_disabled bj' \<noteq> 0"
    by auto
  from update_keeps_absent[OF assms(3) this assms(5)] show ?thesis .
qed

text \<open>An instance: \<open>b2\<close> is disabled and stays out, and \<open>b3\<close> is inserted.\<close>

theorem disabled_unseen_never_inserted_witness:
  "distinct (map bike_id [b2_disabled, b3_enabled])
   \<and> bikes fresh_registry (bike_id b2_disabled) = None
   \<and> is_disabled b2_disabled \<noteq> 0
   \<and> update fresh_registry
        (Loaded \<lparr>p_last_updated = 1000, p_ttl = 60, p_bikes = [b2_disabled, b3_enabled]\<rparr>)
      = Inr (fresh_registry
              \<lparr>bikes := [''b3'' \<mapsto> \<lparr>lat = 0, lon = 0, last_seen = 1000\<rparr>],
               ttl := Some 60, last_updated := Some 1000\<rparr>)
   \<and> bikes (fresh_registry
              \<lparr>bikes := [''b3'' \<mapsto> \<lparr>lat = 0, lon = 0, last_seen = 1000\<rparr>],
               ttl := Some 60, last_updated := Some 1000\<rparr>) (bike_id b2_disabled) = None"
proof -
  let ?json = "\<lparr>p_last_updated = 1000, p_ttl = 60, p_bikes = [b2_disabled, b3_enabled]\<rparr>"
  let ?after = "fresh_registry
              \<lparr>bikes := [''b3'' \<mapsto> \<lparr>lat = 0, lon = 0, last_seen = 1000\<rparr>],
               ttl := Some 60, last_updated := Some 1000\<rparr>"
  have once: "distinct (map bike_id (p_bikes ?json))" by (simp add: example_bikes)
  have listed: "b2_disabled \<in> set (p_bikes ?json)" by simp
  have absent: "bikes fresh_registry (bike_id b2_disabled) = None"
    by (simp add: fresh_registry_def)
  have disabled: "is_disabled b2_disabled \<noteq> 0" by (simp add: example_bikes)
  have ret: "update fresh_registry (Loaded ?json) = Inr ?after"
    by (simp add: update_def update_bike_def fresh_registry_def example_bikes Bike_def)
  from disabled_unseen_never_inserted[OF once listed absent disabled ret] once absent disabled ret
  show ?thesis by simp
qed

section \<open>The terminal sort of the trip log\<close>

subsection \<open>\<open>ord2ymd\<close> and \<open>ymd2ord\<close> are inverse\<close>





















subsection \<open>Later days have later dates\<close>


















subsection \<open>Zero-filled numbers of one width are ordered as the numbers\<close>

lemma length_pad [simp]: "length (pad w k) = w"
  by (induction w arbitrary: k) simp_all


















subsection \<open>Later timestamps have later strings\<close>










lemma new_trip_started_at_epoch:
  "new_trip start_station end_station started ended = Inr t \<Longrightarrow> started_at_epoch t started"
  by (auto simp: new_trip_def started_at_epoch_def split: sum.splits)




end
